theory Spec2Isabelle
  imports Complex_Main "HOL-Library.Char_ord" "HOL-Library.List_Lexorder"
begin

section \<open>Palm payment API: the request handlers over an explicit store\<close>

text \<open>
  The repository is a set of Express request handlers over a Prisma client, in two
  revisions: \<^verbatim>\<open>src/index.js\<close> (the first revision, \<open>rev1\<close> below) and
  \<^verbatim>\<open>src/unnamed/part_000\<close> (the later revision, \<open>rev2\<close>). Each handler is
  modelled as a function from its request (path parameters, query, headers, body) and the
  store to a response and the new store. The clock (\<open>Date.now()\<close>, \<open>new Date()\<close>) and
  freshly generated row ids are arguments of the handler.

  The relational store is a record of tables, each table a list of rows. The Prisma calls
  the handlers make (\<open>findMany\<close>, \<open>findFirst\<close>, \<open>findUnique\<close>, \<open>create\<close>,
  \<open>update\<close>, \<open>delete\<close>, \<open>deleteMany\<close>) are functions on these lists. A call that
  throws returns \<open>Inl\<close>; the handler's \<open>try/catch\<close> turns that into its 500 response.
  The store is assumed reachable: only the failures that the data decide are modelled.
\<close>

subsection \<open>Responses\<close>

datatype 'a response = Json200 'a | Error nat string

fun status_of :: "'a response \<Rightarrow> nat" where
  "status_of (Json200 _) = 200"
| "status_of (Error code _) = code"

datatype prisma_error = RecordNotFound | ConstraintViolation | ValidationError

subsection \<open>Rows\<close>

text \<open>
  Times are milliseconds since the epoch. \<open>'p\<close> is the type of a price as the caller
  submits it in JSON (a number or a decimal string), \<open>'n\<close> the type of JavaScript
  numbers; the handlers only use \<open>0\<close>, \<open>+\<close> and \<open>*\<close> on them.
\<close>

record 'p product =
  product_id :: string
  product_name :: string
  product_description :: "string option"
  product_price :: 'p
  product_imageUrl :: "string option"
  product_stock :: int
  product_active :: bool

record customer =
  customer_id :: string
  customer_name :: string
  customer_createdAt :: nat

record ('p, 'n) orderItem =
  item_productId :: string
  item_quantity :: 'n
  item_price :: 'p

record ('p, 'n) order =
  order_id :: string
  order_customerId :: "string option"
  order_customerName :: "string option"
  order_status :: string
  order_totalAmount :: 'n
  order_palmDeviceId :: "string option"
  order_createdAt :: nat
  order_completedAt :: "nat option"
  order_items :: "('p, 'n) orderItem list"

record palmDevice =
  device_id :: string
  device_name :: "string option"
  device_location :: "string option"
  device_apiToken :: string
  device_createdAt :: nat

record user =
  user_id :: string
  user_displayName :: string

record card =
  card_id :: string
  card_userId :: string

record palmTemplate =
  template_id :: string
  template_userId :: string

record authenticationLog =
  log_id :: string
  log_userId :: string
  log_authenticatedAt :: nat

record deviceAuthenticationLog =
  dlog_id :: string
  dlog_palmDeviceId :: "string option"
  dlog_deviceType :: string
  dlog_location :: string
  dlog_success :: bool
  dlog_reason :: string
  dlog_timestamp :: nat

record ('p, 'n) db =
  products :: "'p product list"
  customers :: "customer list"
  orders :: "('p, 'n) order list"
  palmDevices :: "palmDevice list"
  users :: "user list"
  cards :: "card list"
  palmTemplates :: "palmTemplate list"
  authenticationLogs :: "authenticationLog list"
  deviceAuthenticationLogs :: "deviceAuthenticationLog list"

subsection \<open>Queries\<close>

text \<open>
  \<open>findMany({where, orderBy: {k: 'asc'}})\<close> filters and sorts by the key; \<open>'desc'\<close>
  is the reverse order. Strings are ordered lexicographically by character code.
\<close>

definition orderBy_asc :: "('a \<Rightarrow> 'k::linorder) \<Rightarrow> 'a list \<Rightarrow> 'a list" where
  "orderBy_asc key rows = sort_key key rows"

definition orderBy_desc :: "('a \<Rightarrow> 'k::linorder) \<Rightarrow> 'a list \<Rightarrow> 'a list" where
  "orderBy_desc key rows = rev (sort_key key rows)"

definition findFirst :: "'a list \<Rightarrow> 'a option" where
  "findFirst rows = (case rows of [] \<Rightarrow> None | r # _ \<Rightarrow> Some r)"

subsection \<open>GET /api/products (both revisions, lines 18-29)\<close>

definition get_products :: "('p, 'n) db \<Rightarrow> 'p product list response" where
  "get_products d = Json200 (orderBy_asc product_name (filter product_active (products d)))"

subsection \<open>JavaScript helpers\<close>

text \<open>
  A body or header field that may be absent is an \<open>option\<close>; \<open>None\<close> is
  \<open>undefined\<close>. A string is falsy when it is absent or empty.
\<close>

definition truthy :: "string option \<Rightarrow> bool" where
  "truthy v = (case v of None \<Rightarrow> False | Some s \<Rightarrow> s \<noteq> [])"

definition startsWith :: "string \<Rightarrow> string \<Rightarrow> bool" where
  "startsWith s prefix = (take (length prefix) s = prefix)"

definition substring :: "string \<Rightarrow> nat \<Rightarrow> string" where
  "substring s n = drop n s"

definition or_string :: "string option \<Rightarrow> string \<Rightarrow> string" where
  "or_string v dflt = (case v of None \<Rightarrow> dflt | Some s \<Rightarrow> if s = [] then dflt else s)"

definition or_bool :: "bool option \<Rightarrow> bool \<Rightarrow> bool" where
  "or_bool v dflt = (case v of None \<Rightarrow> dflt | Some b \<Rightarrow> if b then b else dflt)"

subsection \<open>POST /api/orders (rev1 lines 98-132, rev2 lines 109-139)\<close>

record ('p, 'n) order_body =
  body_customerId :: "string option"
  body_customerName :: "string option"
  body_items :: "('p, 'n) orderItem list option"
  body_palmDeviceId :: "string option"

text \<open>
  \<open>items.reduce((sum, item) => sum + (parseFloat(item.price) * item.quantity), 0)\<close>.
  \<open>parseFloat\<close> is the JavaScript builtin, an argument here.
\<close>

definition totalAmount_of ::
  "('p \<Rightarrow> 'n) \<Rightarrow> ('p, 'n) orderItem list \<Rightarrow> 'n::{zero,plus,times}" where
  "totalAmount_of parseFloat items =
     foldl (\<lambda>sum item. sum + parseFloat (item_price item) * item_quantity item) 0 items"

text \<open>
  \<open>prisma.order.create\<close>: the row gets the generated id, the creation time and the
  status column's default, and is stored together with its items. \<open>accepts\<close> is the
  store's own check of the new row (column types, foreign keys), declared in the Prisma
  schema and not in the handlers; a row it refuses makes the call throw.
\<close>

definition order_create ::
  "(('p, 'n) db \<Rightarrow> ('p, 'n) order \<Rightarrow> bool) \<Rightarrow> string \<Rightarrow> nat \<Rightarrow>
   string option \<Rightarrow> string option \<Rightarrow> 'n \<Rightarrow> string option \<Rightarrow> ('p, 'n) orderItem list \<Rightarrow>
   ('p, 'n) db \<Rightarrow> prisma_error + (('p, 'n) order \<times> ('p, 'n) db)" where
  "order_create accepts new_id now customerId customerName totalAmount palmDeviceId items d =
     (let row = \<lparr>order_id = new_id, order_customerId = customerId,
                  order_customerName = customerName, order_status = ''pending'',
                  order_totalAmount = totalAmount, order_palmDeviceId = palmDeviceId,
                  order_createdAt = now, order_completedAt = None, order_items = items\<rparr>
      in if accepts d row then Inr (row, d\<lparr>orders := orders d @ [row]\<rparr>)
         else Inl ConstraintViolation)"

text \<open>
  Modelled from the spec: the Prisma schema, which is not among the source files. The spec
  gives Order.customerId as a nullable foreign reference and no other reference of an
  order as nullable, and it has order creation require a selected device; the handlers
  join an order with its device and each item with its product. So the customer of a new
  order is absent or a stored customer, its device is a stored device, and the product
  of each item is a stored product. The handlers take the store's check as an argument;
  this one is the check of the spec's schema.
\<close>

definition referential_ok :: "('p, 'n) db \<Rightarrow> ('p, 'n) order \<Rightarrow> bool" where
  "referential_ok d row =
     ((case order_customerId row of None \<Rightarrow> True
       | Some c \<Rightarrow> c \<in> set (map customer_id (customers d))) \<and>
      (case order_palmDeviceId row of None \<Rightarrow> False
       | Some p \<Rightarrow> p \<in> set (map device_id (palmDevices d))) \<and>
      list_all (\<lambda>item. item_productId item \<in> set (map product_id (products d)))
        (order_items row))"

text \<open>The \<open>include\<close> of the create call: each item's product, and the order's device.\<close>

record ('p, 'n) created_order =
  created_order :: "('p, 'n) order"
  created_item_products :: "'p product option list"
  created_palmDevice :: "palmDevice option"

definition product_of :: "('p, 'n) db \<Rightarrow> ('p, 'n) orderItem \<Rightarrow> 'p product option" where
  "product_of d item = find (\<lambda>p. product_id p = item_productId item) (products d)"

definition include_created :: "('p, 'n) db \<Rightarrow> ('p, 'n) order \<Rightarrow> ('p, 'n) created_order" where
  "include_created d row =
     \<lparr>created_order = row,
      created_item_products = map (product_of d) (order_items row),
      created_palmDevice =
        (case order_palmDeviceId row of None \<Rightarrow> None
         | Some p \<Rightarrow> find (\<lambda>dev. device_id dev = p) (palmDevices d))\<rparr>"

definition create_items :: "('p, 'n) orderItem list \<Rightarrow> ('p, 'n) orderItem list" where
  "create_items items =
     map (\<lambda>item. \<lparr>item_productId = item_productId item, item_quantity = item_quantity item,
                  item_price = item_price item\<rparr>) items"

text \<open>
  The later revision: \<open>items.reduce\<close> on a body without an item array throws a
  TypeError, which the handler's \<open>catch\<close> answers with 500.
\<close>

definition post_orders_rev2 ::
  "(('p, 'n) db \<Rightarrow> ('p, 'n) order \<Rightarrow> bool) \<Rightarrow> ('p \<Rightarrow> 'n::{zero,plus,times}) \<Rightarrow> string \<Rightarrow> nat \<Rightarrow>
   ('p, 'n) order_body \<Rightarrow> ('p, 'n) db \<Rightarrow> ('p, 'n) created_order response \<times> ('p, 'n) db" where
  "post_orders_rev2 accepts parseFloat new_id now body d =
     (case body_items body of
        None \<Rightarrow> (Error 500 ''Failed to create order'', d)
      | Some items \<Rightarrow>
          (let totalAmount = totalAmount_of parseFloat items in
           case order_create accepts new_id now (body_customerId body)
                  (body_customerName body) totalAmount (body_palmDeviceId body)
                  (create_items items) d of
             Inl _ \<Rightarrow> (Error 500 ''Failed to create order'', d)
           | Inr (row, d') \<Rightarrow> (Json200 (include_created d' row), d')))"

text \<open>
  The first revision answers 400 when \<open>palmDeviceId\<close> is falsy, before anything else;
  the rest of its handler is the text of the later revision's.
\<close>

definition post_orders_rev1 ::
  "(('p, 'n) db \<Rightarrow> ('p, 'n) order \<Rightarrow> bool) \<Rightarrow> ('p \<Rightarrow> 'n::{zero,plus,times}) \<Rightarrow> string \<Rightarrow> nat \<Rightarrow>
   ('p, 'n) order_body \<Rightarrow> ('p, 'n) db \<Rightarrow> ('p, 'n) created_order response \<times> ('p, 'n) db" where
  "post_orders_rev1 accepts parseFloat new_id now body d =
     (if \<not> truthy (body_palmDeviceId body)
      then (Error 400 ''Device selection required'', d)
      else post_orders_rev2 accepts parseFloat new_id now body d)"

subsection \<open>Bearer lookup and GET /api/palm/next-order (rev1 lines 158-191, rev2 lines 183-199)\<close>

definition palmDevice_findUnique :: "string \<Rightarrow> ('p, 'n) db \<Rightarrow> palmDevice option" where
  "palmDevice_findUnique apiToken d =
     find (\<lambda>dev. device_apiToken dev = apiToken) (palmDevices d)"

text \<open>The \<open>include\<close> of the order queries: each item's product, and the customer.\<close>

record ('p, 'n) listed_order =
  listed_order :: "('p, 'n) order"
  listed_item_products :: "'p product option list"
  listed_customer :: "customer option"

definition include_listed :: "('p, 'n) db \<Rightarrow> ('p, 'n) order \<Rightarrow> ('p, 'n) listed_order" where
  "include_listed d row =
     \<lparr>listed_order = row,
      listed_item_products = map (product_of d) (order_items row),
      listed_customer =
        (case order_customerId row of None \<Rightarrow> None
         | Some c \<Rightarrow> find (\<lambda>cu. customer_id cu = c) (customers d))\<rparr>"

definition order_findFirst_pending ::
  "(('p, 'n) order \<Rightarrow> bool) \<Rightarrow> ('p, 'n) db \<Rightarrow> ('p, 'n) listed_order option" where
  "order_findFirst_pending extra d =
     map_option (include_listed d)
       (findFirst (orderBy_asc order_createdAt
          (filter (\<lambda>r. order_status r = ''pending'' \<and> extra r) (orders d))))"

definition get_next_order_rev1 ::
  "string option \<Rightarrow> ('p, 'n) db \<Rightarrow> ('p, 'n) listed_order option response" where
  "get_next_order_rev1 authHeader d =
     (case authHeader of
        None \<Rightarrow> Error 401 ''Missing authorization token''
      | Some h \<Rightarrow>
          if h = [] \<or> \<not> startsWith h ''Bearer ''
          then Error 401 ''Missing authorization token''
          else (let token = substring h 7 in
                case palmDevice_findUnique token d of
                  None \<Rightarrow> Error 401 ''Invalid device token''
                | Some device \<Rightarrow>
                    Json200 (order_findFirst_pending
                      (\<lambda>r. order_palmDeviceId r = Some (device_id device)) d)))"

text \<open>The later revision reads no header; the argument is there to say so.\<close>

definition get_next_order_rev2 ::
  "string option \<Rightarrow> ('p, 'n) db \<Rightarrow> ('p, 'n) listed_order option response" where
  "get_next_order_rev2 authHeader d = Json200 (order_findFirst_pending (\<lambda>r. True) d)"

subsection \<open>POST /api/palm/complete-order/:id (rev2 lines 202-222)\<close>

record complete_body =
  cbody_status :: "string option"
  cbody_customerId :: "string option"
  cbody_customerName :: "string option"

text \<open>
  The \<open>data\<close> object of the update. A key that is absent or \<open>undefined\<close> (\<open>None\<close>)
  leaves its column as it is.
\<close>

record order_data =
  data_status :: "string option"
  data_completedAt :: "nat option"
  data_customerName :: "string option"

definition apply_order_data :: "order_data \<Rightarrow> ('p, 'n) order \<Rightarrow> ('p, 'n) order" where
  "apply_order_data dat row =
     row\<lparr>order_status := (case data_status dat of None \<Rightarrow> order_status row | Some s \<Rightarrow> s),
         order_completedAt :=
           (case data_completedAt dat of None \<Rightarrow> order_completedAt row | Some t \<Rightarrow> Some t),
         order_customerName :=
           (case data_customerName dat of None \<Rightarrow> order_customerName row
            | Some c \<Rightarrow> Some c)\<rparr>"

fun update_first :: "('a \<Rightarrow> bool) \<Rightarrow> ('a \<Rightarrow> 'a) \<Rightarrow> 'a list \<Rightarrow> 'a list" where
  "update_first P f [] = []"
| "update_first P f (x # xs) = (if P x then f x # xs else x # update_first P f xs)"

text \<open>\<open>prisma.order.update({where: {id}, data})\<close> throws when no row has the id.\<close>

definition order_update ::
  "string \<Rightarrow> order_data \<Rightarrow> ('p, 'n) db \<Rightarrow> prisma_error + (('p, 'n) order \<times> ('p, 'n) db)" where
  "order_update oid dat d =
     (case find (\<lambda>r. order_id r = oid) (orders d) of
        None \<Rightarrow> Inl RecordNotFound
      | Some row \<Rightarrow>
          Inr (apply_order_data dat row,
               d\<lparr>orders := update_first (\<lambda>r. order_id r = oid) (apply_order_data dat)
                              (orders d)\<rparr>))"

definition complete_order_rev2 ::
  "nat \<Rightarrow> string \<Rightarrow> complete_body \<Rightarrow> ('p, 'n) db \<Rightarrow>
   (('p, 'n) order \<times> string) response \<times> ('p, 'n) db" where
  "complete_order_rev2 now oid body d =
     (let dat = \<lparr>data_status = cbody_status body, data_completedAt = Some now,
                 data_customerName =
                   (if truthy (cbody_customerName body) then cbody_customerName body
                    else None)\<rparr> in
      case order_update oid dat d of
        Inl _ \<Rightarrow> (Error 500 ''Failed to complete order'', d)
      | Inr (row, d') \<Rightarrow> (Json200 (row, ''Order completed''), d'))"

subsection \<open>POST /api/palm-devices/auth-log (rev2 lines 348-382)\<close>

record auth_log_body =
  abody_deviceType :: "string option"
  abody_location :: "string option"
  abody_success :: "bool option"
  abody_reason :: "string option"

definition deviceAuthenticationLog_create ::
  "deviceAuthenticationLog \<Rightarrow> ('p, 'n) db \<Rightarrow> ('p, 'n) db" where
  "deviceAuthenticationLog_create row d =
     d\<lparr>deviceAuthenticationLogs := deviceAuthenticationLogs d @ [row]\<rparr>"

definition post_auth_log ::
  "string \<Rightarrow> nat \<Rightarrow> string option \<Rightarrow> auth_log_body \<Rightarrow> ('p, 'n) db \<Rightarrow>
   deviceAuthenticationLog response \<times> ('p, 'n) db" where
  "post_auth_log new_id now authHeader body d =
     (case authHeader of
        None \<Rightarrow> (Error 401 ''Unauthorized'', d)
      | Some h \<Rightarrow>
          if \<not> startsWith h ''Bearer ''
          then (Error 401 ''Unauthorized'', d)
          else (let apiToken = substring h 7 in
                case palmDevice_findUnique apiToken d of
                  None \<Rightarrow> (Error 401 ''Invalid token'', d)
                | Some device \<Rightarrow>
                    (let authLog =
                       \<lparr>dlog_id = new_id, dlog_palmDeviceId = Some (device_id device),
                        dlog_deviceType = or_string (abody_deviceType body) ''palm'',
                        dlog_location = or_string (abody_location body) ''Unknown'',
                        dlog_success = or_bool (abody_success body) False,
                        dlog_reason = or_string (abody_reason body) ''Authentication failed'',
                        dlog_timestamp = now\<rparr>
                     in (Json200 authLog, deviceAuthenticationLog_create authLog d))))"

subsection \<open>DELETE /api/v1/users/:userId (rev2 lines 583-598)\<close>

definition card_deleteMany :: "string \<Rightarrow> ('p, 'n) db \<Rightarrow> ('p, 'n) db" where
  "card_deleteMany userId d = d\<lparr>cards := filter (\<lambda>c. card_userId c \<noteq> userId) (cards d)\<rparr>"

definition palmTemplate_deleteMany :: "string \<Rightarrow> ('p, 'n) db \<Rightarrow> ('p, 'n) db" where
  "palmTemplate_deleteMany userId d =
     d\<lparr>palmTemplates := filter (\<lambda>t. template_userId t \<noteq> userId) (palmTemplates d)\<rparr>"

definition authenticationLog_deleteMany :: "string \<Rightarrow> ('p, 'n) db \<Rightarrow> ('p, 'n) db" where
  "authenticationLog_deleteMany userId d =
     d\<lparr>authenticationLogs := filter (\<lambda>l. log_userId l \<noteq> userId) (authenticationLogs d)\<rparr>"

text \<open>
  Modelled from the spec: the referential integrity of the Prisma schema, which is not
  among the source files. No cascade is configured, so the store refuses to delete a User
  row that a Card, PalmTemplate or AuthenticationLog row still refers to.
\<close>

definition user_referenced :: "string \<Rightarrow> ('p, 'n) db \<Rightarrow> bool" where
  "user_referenced userId d =
     (userId \<in> set (map card_userId (cards d)) \<or>
      userId \<in> set (map template_userId (palmTemplates d)) \<or>
      userId \<in> set (map log_userId (authenticationLogs d)))"

text \<open>\<open>prisma.user.delete({where: {id}})\<close> throws when no row has the id.\<close>

definition user_delete :: "string \<Rightarrow> ('p, 'n) db \<Rightarrow> prisma_error + ('p, 'n) db" where
  "user_delete userId d =
     (if userId \<notin> set (map user_id (users d)) then Inl RecordNotFound
      else if user_referenced userId d then Inl ConstraintViolation
      else Inr (d\<lparr>users := filter (\<lambda>u. user_id u \<noteq> userId) (users d)\<rparr>))"

text \<open>
  The four calls are awaited one after the other and are not a transaction: when the last
  one throws, the three \<open>deleteMany\<close> before it have already taken effect.
\<close>

definition delete_user ::
  "string \<Rightarrow> ('p, 'n) db \<Rightarrow> (bool \<times> string) response \<times> ('p, 'n) db" where
  "delete_user userId d =
     (let d1 = card_deleteMany userId d;
          d2 = palmTemplate_deleteMany userId d1;
          d3 = authenticationLog_deleteMany userId d2
      in case user_delete userId d3 of
           Inl _ \<Rightarrow> (Error 500 ''Failed to delete user'', d3)
         | Inr d4 \<Rightarrow> (Json200 (True, ''User deleted successfully''), d4))"

subsection \<open>parseInt and the paginated log endpoints (rev2 lines 293-311, 601-619)\<close>

text \<open>
  A query parameter is a JavaScript string, a list of UTF-16 code units; \<open>js\<close> writes
  one from its ASCII text. The numbers \<open>parseInt\<close> returns are NaN, the two infinities
  and the doubles of integer value; both zeros are \<open>Num 0\<close>.
\<close>

type_synonym js_string = "nat list"

definition js :: "string \<Rightarrow> js_string" where
  "js s = map of_char s"

datatype number = NaN | Num int | PosInfinity | NegInfinity

text \<open>
  White space of ECMA-262 (StrWhiteSpaceChar): TAB, VT, FF, the zero width no-break space,
  the space separators of Unicode (category Zs) and the line terminators.
\<close>

definition isStrWhiteSpaceChar :: "nat \<Rightarrow> bool" where
  "isStrWhiteSpaceChar c =
     (c \<in> {0x9, 0xA, 0xB, 0xC, 0xD, 0x20, 0xA0, 0x1680, 0x2028, 0x2029, 0x202F, 0x205F,
           0x3000, 0xFEFF} \<or>
      (0x2000 \<le> c \<and> c \<le> 0x200A))"

definition digit_value :: "nat \<Rightarrow> nat \<Rightarrow> nat option" where
  "digit_value R n =
     (let v = (if 48 \<le> n \<and> n \<le> 57 then Some (n - 48)
               else if 97 \<le> n \<and> n \<le> 122 then Some (n - 87)
               else if 65 \<le> n \<and> n \<le> 90 then Some (n - 55)
               else None)
      in case v of None \<Rightarrow> None | Some k \<Rightarrow> if k < R then Some k else None)"

definition digits_value :: "nat \<Rightarrow> js_string \<Rightarrow> nat" where
  "digits_value R Z = foldl (\<lambda>acc c. acc * R + the (digit_value R c)) 0 Z"

text \<open>
  The Number value of a natural number: the nearest double, ties to the even mantissa of
  53 bits, and infinity (\<open>None\<close>) from \<open>2^1024\<close> on.
\<close>

fun bit_length :: "nat \<Rightarrow> nat" where
  "bit_length n = (if n = 0 then 0 else Suc (bit_length (n div 2)))"

declare bit_length.simps [simp del]

definition to_double :: "nat \<Rightarrow> nat option" where
  "to_double m =
     (if m < 2 ^ 53 then Some m
      else (let e = bit_length m - 53;
                q = m div 2 ^ e;
                r = m mod 2 ^ e;
                half = 2 ^ (e - 1);
                q' = (if half < r \<or> (r = half \<and> odd q) then q + 1 else q);
                v = q' * 2 ^ e
            in if 2 ^ 1024 \<le> v then None else Some v))"

text \<open>
  \<open>parseInt(string)\<close> with no radix, after ECMA-262: leading white space is dropped,
  then an optional sign, then an optional \<open>0x\<close> prefix that selects radix 16; the
  longest run of digits of the radix that follows is the value, as a Number, and no digit
  at all gives NaN. (Beyond 20 significant decimal digits ECMA-262 lets an implementation
  approximate; the model rounds the exact value.)
\<close>

definition parseInt :: "js_string \<Rightarrow> number" where
  "parseInt inputString =
     (let S = dropWhile isStrWhiteSpaceChar inputString;
          negative = (S \<noteq> [] \<and> hd S = of_char CHR ''-'');
          S1 = (if S \<noteq> [] \<and> (hd S = of_char CHR ''+'' \<or> hd S = of_char CHR ''-'')
                then tl S else S);
          hex = (2 \<le> length S1 \<and> (take 2 S1 = js ''0x'' \<or> take 2 S1 = js ''0X''));
          R = (if hex then 16 else 10 :: nat);
          S2 = (if hex then drop 2 S1 else S1);
          Z = takeWhile (\<lambda>c. digit_value R c \<noteq> None) S2
      in if Z = [] then NaN
         else (case to_double (digits_value R Z) of
                 None \<Rightarrow> if negative then NegInfinity else PosInfinity
               | Some v \<Rightarrow> Num (if negative then - int v else int v)))"

text \<open>
  \<open>parseInt(req.query.x) || dflt\<close>: an absent parameter is \<open>undefined\<close>, which
  \<open>parseInt\<close> reads as the string \<open>undefined\<close>; NaN and 0 are falsy, every other
  number is truthy.
\<close>

definition query_parseInt :: "js_string option \<Rightarrow> number" where
  "query_parseInt q = parseInt (case q of None \<Rightarrow> js ''undefined'' | Some s \<Rightarrow> s)"

definition or_number :: "number \<Rightarrow> int \<Rightarrow> number" where
  "or_number v dflt = (if v = NaN \<or> v = Num 0 then Num dflt else v)"

text \<open>
  \<open>findMany({take, skip})\<close> on the ordered rows, after the Prisma client reference:
  \<open>take\<close> and \<open>skip\<close> have to be 64-bit signed integers and \<open>skip\<close> not
  negative, or the call throws; a negative \<open>take\<close> counts from the end of the list
  (the rows are read in reverse order and returned in the requested order).
\<close>

definition int64 :: "number \<Rightarrow> int option" where
  "int64 v =
     (case v of
        Num n \<Rightarrow> if - (2 ^ 63) \<le> n \<and> n < 2 ^ 63 then Some n else None
      | _ \<Rightarrow> None)"

definition take_skip :: "number \<Rightarrow> number \<Rightarrow> 'a list \<Rightarrow> prisma_error + 'a list" where
  "take_skip tk sk rows =
     (case int64 tk of
        None \<Rightarrow> Inl ValidationError
      | Some t \<Rightarrow>
          (case int64 sk of
             None \<Rightarrow> Inl ValidationError
           | Some k \<Rightarrow>
               if k < 0 then Inl ValidationError
               else if 0 \<le> t then Inr (take (nat t) (drop (nat k) rows))
               else Inr (rev (take (nat (- t)) (drop (nat k) (rev rows))))))"

definition authenticationLog_findMany ::
  "string \<Rightarrow> number \<Rightarrow> number \<Rightarrow> ('p, 'n) db \<Rightarrow> prisma_error + authenticationLog list" where
  "authenticationLog_findMany userId tk sk d =
     take_skip tk sk
       (orderBy_desc log_authenticatedAt
          (filter (\<lambda>l. log_userId l = userId) (authenticationLogs d)))"

definition get_auth_logs ::
  "string \<Rightarrow> js_string option \<Rightarrow> js_string option \<Rightarrow> ('p, 'n) db \<Rightarrow>
   authenticationLog list response" where
  "get_auth_logs userId q_limit q_offset d =
     (let limit = or_number (query_parseInt q_limit) 50;
          offset = or_number (query_parseInt q_offset) 0
      in case authenticationLog_findMany userId limit offset d of
           Inl _ \<Rightarrow> Error 500 ''Failed to fetch authentication logs''
         | Inr logs \<Rightarrow> Json200 logs)"

record auth_history =
  history_logs :: "authenticationLog list"
  history_total :: nat
  history_limit :: number
  history_offset :: number

definition get_auth_history ::
  "string \<Rightarrow> js_string option \<Rightarrow> js_string option \<Rightarrow> ('p, 'n) db \<Rightarrow>
   auth_history response" where
  "get_auth_history userId q_limit q_offset d =
     (let limit = or_number (query_parseInt q_limit) 50;
          offset = or_number (query_parseInt q_offset) 0
      in case authenticationLog_findMany userId limit offset d of
           Inl _ \<Rightarrow> Error 500 ''Failed to fetch authentication history''
         | Inr logs \<Rightarrow>
             Json200 \<lparr>history_logs = logs, history_total = length logs,
                      history_limit = limit, history_offset = offset\<rparr>)"

subsection \<open>The enrollment tokens (rev2 lines 504-564)\<close>

record 'f enrollment =
  palmFeatures :: 'f
  createdAt :: nat
  expiresAt :: nat

type_synonym 'f enrollmentTokens = "string \<Rightarrow> 'f enrollment option"

text \<open>
  The generating handler reads the clock twice (\<open>t1\<close>, then \<open>t2\<close>) and draws the token
  from \<open>crypto.randomBytes\<close>; the timer it sets runs \<open>enrollment_timeout\<close> later.
\<close>

definition generate_enrollment_qr ::
  "string \<Rightarrow> nat \<Rightarrow> nat \<Rightarrow> 'f \<Rightarrow> 'f enrollmentTokens \<Rightarrow>
   (string \<times> nat) response \<times> 'f enrollmentTokens" where
  "generate_enrollment_qr enrollmentToken t1 t2 features store =
     (Json200 (enrollmentToken, 600),
      store(enrollmentToken \<mapsto>
        \<lparr>palmFeatures = features, createdAt = t1, expiresAt = t2 + 10 * 60 * 1000\<rparr>))"

definition enrollment_timeout :: "string \<Rightarrow> 'f enrollmentTokens \<Rightarrow> 'f enrollmentTokens" where
  "enrollment_timeout enrollmentToken store = store(enrollmentToken := None)"

definition get_enrollment ::
  "nat \<Rightarrow> string \<Rightarrow> 'f enrollmentTokens \<Rightarrow> ('f \<times> nat) response \<times> 'f enrollmentTokens" where
  "get_enrollment now token store =
     (case store token of
        None \<Rightarrow> (Error 404 ''Enrollment token not found or expired'', store)
      | Some enrollment \<Rightarrow>
          if now > expiresAt enrollment
          then (Error 410 ''Enrollment token expired'', store(token := None))
          else (Json200 (palmFeatures enrollment, createdAt enrollment), store))"

subsection \<open>The specification's words\<close>

text \<open>
  The sum of price times quantity over the lines of an order, added up line by line in
  JavaScript's arithmetic.
\<close>

definition spec_total :: "('p \<Rightarrow> 'n) \<Rightarrow> ('p, 'n) orderItem list \<Rightarrow> 'n::{zero,plus,times}" where
  "spec_total parseFloat items =
     foldl (+) 0 (map (\<lambda>item. parseFloat (item_price item) * item_quantity item) items)"

text \<open>
  Bearer authentication fails when the header is missing, does not use the Bearer scheme,
  or carries a token that is the \<open>apiToken\<close> of no device.
\<close>

definition spec_bearer_rejected :: "string option \<Rightarrow> ('p, 'n) db \<Rightarrow> bool" where
  "spec_bearer_rejected authHeader d =
     (case authHeader of
        None \<Rightarrow> True
      | Some h \<Rightarrow>
          \<not> startsWith h ''Bearer '' \<or>
          (\<forall>dev \<in> set (palmDevices d). device_apiToken dev \<noteq> substring h 7))"

text \<open>A query parameter that is absent, is not numeric, or parses to 0.\<close>

definition spec_defaulted :: "js_string option \<Rightarrow> bool" where
  "spec_defaulted q =
     (case q of None \<Rightarrow> True | Some s \<Rightarrow> parseInt s = NaN \<or> parseInt s = Num 0)"

subsection \<open>An example store\<close>

definition example_product :: "string \<Rightarrow> string \<Rightarrow> rat \<Rightarrow> bool \<Rightarrow> rat product" where
  "example_product i n p a =
     \<lparr>product_id = i, product_name = n, product_description = None, product_price = p,
      product_imageUrl = None, product_stock = 10, product_active = a\<rparr>"

definition example_order ::
  "string \<Rightarrow> string \<Rightarrow> string option \<Rightarrow> nat \<Rightarrow> (rat, rat) order" where
  "example_order i st dev t =
     \<lparr>order_id = i, order_customerId = Some ''c1'', order_customerName = Some ''Ada'',
      order_status = st, order_totalAmount = 4, order_palmDeviceId = dev,
      order_createdAt = t, order_completedAt = None,
      order_items = [\<lparr>item_productId = ''p1'', item_quantity = 1, item_price = 4\<rparr>]\<rparr>"

definition example_db :: "(rat, rat) db" where
  "example_db =
     \<lparr>products = [example_product ''p1'' ''Latte'' 4 True,
                  example_product ''p2'' ''Bagel'' 5 False,
                  example_product ''p3'' ''Americano'' 3 True],
      customers = [\<lparr>customer_id = ''c1'', customer_name = ''Ada'', customer_createdAt = 1\<rparr>],
      orders = [example_order ''o1'' ''pending'' (Some ''d2'') 200,
                example_order ''o2'' ''pending'' (Some ''d1'') 100,
                example_order ''o3'' ''completed'' (Some ''d1'') 50],
      palmDevices = [\<lparr>device_id = ''d1'', device_name = Some ''Kiosk'',
                       device_location = None, device_apiToken = ''tok1'',
                       device_createdAt = 1\<rparr>,
                     \<lparr>device_id = ''d2'', device_name = None, device_location = None,
                       device_apiToken = ''tok2'', device_createdAt = 2\<rparr>],
      users = [\<lparr>user_id = ''u1'', user_displayName = ''Ada''\<rparr>,
               \<lparr>user_id = ''u2'', user_displayName = ''Bob''\<rparr>],
      cards = [\<lparr>card_id = ''k1'', card_userId = ''u1''\<rparr>,
               \<lparr>card_id = ''k2'', card_userId = ''u2''\<rparr>],
      palmTemplates = [\<lparr>template_id = ''t1'', template_userId = ''u1''\<rparr>],
      authenticationLogs =
        [\<lparr>log_id = ''l1'', log_userId = ''u1'', log_authenticatedAt = 10\<rparr>,
         \<lparr>log_id = ''l2'', log_userId = ''u2'', log_authenticatedAt = 20\<rparr>,
         \<lparr>log_id = ''l3'', log_userId = ''u1'', log_authenticatedAt = 30\<rparr>],
      deviceAuthenticationLogs = []\<rparr>"

definition example_body :: "(rat, rat) order_body" where
  "example_body =
     \<lparr>body_customerId = None, body_customerName = Some ''Ada'',
      body_items = Some [\<lparr>item_productId = ''p1'', item_quantity = 2, item_price = 7 / 2\<rparr>,
                         \<lparr>item_productId = ''p3'', item_quantity = 1, item_price = 5\<rparr>],
      body_palmDeviceId = Some ''d1''\<rparr>"

definition example_tokens :: "string enrollmentTokens" where
  "example_tokens =
     [''a1b2'' \<mapsto> \<lparr>palmFeatures = ''features'', createdAt = 1000, expiresAt = 601000\<rparr>]"

section \<open>Properties\<close>

subsection \<open>Queries\<close>

lemma findFirst_sort_key_None: "findFirst (sort_key f xs) = None \<longleftrightarrow> xs = []"
  by (cases "sort_key f xs") (auto simp: findFirst_def dest: arg_cong[where f=length])

lemma findFirst_sort_key_Some:
  assumes "findFirst (sort_key f xs) = Some x"
  shows "x \<in> set xs \<and> (\<forall>y \<in> set xs. f x \<le> f y)"
proof -
  from assms obtain rest where eq: "sort_key f xs = x # rest"
    by (auto simp: findFirst_def split: list.splits)
  have "set (x # rest) = set xs" using eq by (metis set_sort)
  moreover have "sorted (map f (x # rest))" using eq by (metis sorted_sort_key)
  ultimately show ?thesis by auto
qed

subsection \<open>The product list\<close>

text \<open>
  Claim C9. For every state of the product store, GET /api/products answers 200 with
  exactly the products whose active flag is true, each as often as it is stored, sorted by
  name in ascending order. The handler is the same text in both revisions.
\<close>

theorem get_products_only_active_sorted:
  "\<exists>ps. get_products d = Json200 ps \<and>
        (\<forall>p \<in> set ps. product_active p) \<and>
        set ps = {p \<in> set (products d). product_active p} \<and>
        length ps = length (filter product_active (products d)) \<and>
        sorted (map product_name ps)"
  by (simp add: get_products_def orderBy_asc_def)

theorem get_products_only_active_sorted_witness:
  "get_products example_db =
     Json200 [example_product ''p3'' ''Americano'' 3 True,
              example_product ''p1'' ''Latte'' 4 True]"
  using get_products_only_active_sorted [of example_db]
  by (simp add: get_products_def orderBy_asc_def example_db_def example_product_def)

subsection \<open>The next pending order\<close>

lemma order_findFirst_pending_None:
  "order_findFirst_pending extra d = None \<longleftrightarrow>
     (\<forall>r \<in> set (orders d). \<not> (order_status r = ''pending'' \<and> extra r))"
  by (simp add: order_findFirst_pending_def orderBy_asc_def findFirst_sort_key_None
      filter_empty_conv)

lemma order_findFirst_pending_Some:
  assumes "order_findFirst_pending extra d = Some v"
  shows "v = include_listed d (listed_order v) \<and>
         listed_order v \<in> set (orders d) \<and>
         order_status (listed_order v) = ''pending'' \<and> extra (listed_order v) \<and>
         (\<forall>r \<in> set (orders d). order_status r = ''pending'' \<and> extra r \<longrightarrow>
             order_createdAt (listed_order v) \<le> order_createdAt r)"
proof -
  from assms obtain row where
    ff: "findFirst (sort_key order_createdAt
           (filter (\<lambda>r. order_status r = ''pending'' \<and> extra r) (orders d))) = Some row"
    and v: "v = include_listed d row"
    by (auto simp: order_findFirst_pending_def orderBy_asc_def)
  have row: "listed_order v = row" using v by (simp add: include_listed_def)
  from findFirst_sort_key_Some [OF ff] show ?thesis
    using v row by auto
qed

text \<open>
  Claim C5. In the later revision GET /api/palm/next-order reads no header and scopes to no
  device: whatever the Authorization header of the caller, it answers 200 with the same
  result as for a caller without one, and that result is null exactly when the store has
  no pending order and otherwise a pending order whose createdAt is the earliest among all
  pending orders of the store, whichever device they were created for.
\<close>

theorem next_order_rev2_oldest_pending_any_caller:
  "get_next_order_rev2 authHeader d = get_next_order_rev2 None d \<and>
   (\<exists>result. get_next_order_rev2 authHeader d = Json200 result \<and>
      (case result of
         None \<Rightarrow> (\<forall>r \<in> set (orders d). order_status r \<noteq> ''pending'')
       | Some v \<Rightarrow>
           listed_order v \<in> set (orders d) \<and>
           order_status (listed_order v) = ''pending'' \<and>
           (\<forall>r \<in> set (orders d). order_status r = ''pending'' \<longrightarrow>
               order_createdAt (listed_order v) \<le> order_createdAt r)))"
proof -
  have "case order_findFirst_pending (\<lambda>r. True) d of
         None \<Rightarrow> (\<forall>r \<in> set (orders d). order_status r \<noteq> ''pending'')
       | Some v \<Rightarrow>
           listed_order v \<in> set (orders d) \<and>
           order_status (listed_order v) = ''pending'' \<and>
           (\<forall>r \<in> set (orders d). order_status r = ''pending'' \<longrightarrow>
               order_createdAt (listed_order v) \<le> order_createdAt r)"
  proof (cases "order_findFirst_pending (\<lambda>r. True) d")
    case None
    then show ?thesis using order_findFirst_pending_None [of "\<lambda>r. True" d] by simp
  next
    case (Some v)
    then show ?thesis using order_findFirst_pending_Some [of "\<lambda>r. True" d v] by simp
  qed
  then show ?thesis by (simp add: get_next_order_rev2_def)
qed

theorem next_order_rev2_oldest_pending_any_caller_witness:
  "get_next_order_rev2 (Some ''Bearer tok2'') example_db = get_next_order_rev2 None example_db \<and>
   get_next_order_rev2 None example_db =
     Json200 (Some (include_listed example_db (example_order ''o2'' ''pending'' (Some ''d1'') 100))) \<and>
   get_next_order_rev2 None (example_db\<lparr>orders := []\<rparr>) = Json200 None"
  using next_order_rev2_oldest_pending_any_caller [of "Some ''Bearer tok2''" example_db]
  by (simp add: get_next_order_rev2_def order_findFirst_pending_def orderBy_asc_def
      findFirst_def example_db_def example_order_def)

subsection \<open>Bearer authentication\<close>

lemma palmDevice_findUnique_None:
  "palmDevice_findUnique t d = None \<longleftrightarrow> (\<forall>dev \<in> set (palmDevices d). device_apiToken dev \<noteq> t)"
  by (auto simp: palmDevice_findUnique_def find_None_iff)

lemma palmDevice_findUnique_Some:
  "palmDevice_findUnique t d = Some dev \<Longrightarrow> dev \<in> set (palmDevices d) \<and> device_apiToken dev = t"
  by (auto simp: palmDevice_findUnique_def find_Some_iff)

lemma startsWith_nonempty: "startsWith h ''Bearer '' \<Longrightarrow> h \<noteq> []"
  by (auto simp: startsWith_def)

text \<open>
  Claim C6. The two bearer-authenticated handlers (GET /api/palm/next-order of the first
  revision, POST /api/palm-devices/auth-log of the later one) answer 401 exactly when the
  Authorization header is missing, does not start with the Bearer scheme, or carries a
  token equal to the apiToken of no device; then nothing is written and no order is
  returned. Otherwise a device whose apiToken equals the token exactly is the one the
  operation runs for: the order query is scoped to it, the log row refers to it.
\<close>

theorem bearer_lookup_401_iff_rejected:
  "(status_of (get_next_order_rev1 authHeader d) = 401 \<longleftrightarrow> spec_bearer_rejected authHeader d) \<and>
   (status_of (fst (post_auth_log new_id now authHeader body d)) = 401 \<longleftrightarrow>
      spec_bearer_rejected authHeader d) \<and>
   (spec_bearer_rejected authHeader d \<longrightarrow>
      (\<exists>msg. get_next_order_rev1 authHeader d = Error 401 msg) \<and>
      (\<exists>msg. post_auth_log new_id now authHeader body d = (Error 401 msg, d))) \<and>
   (\<not> spec_bearer_rejected authHeader d \<longrightarrow>
      (\<exists>h dev. authHeader = Some h \<and> dev \<in> set (palmDevices d) \<and>
         device_apiToken dev = substring h 7 \<and>
         get_next_order_rev1 authHeader d =
           Json200 (order_findFirst_pending
                      (\<lambda>r. order_palmDeviceId r = Some (device_id dev)) d) \<and>
         (\<exists>authLog. post_auth_log new_id now authHeader body d =
                      (Json200 authLog, d\<lparr>deviceAuthenticationLogs :=
                                             deviceAuthenticationLogs d @ [authLog]\<rparr>) \<and>
                    dlog_palmDeviceId authLog = Some (device_id dev))))"
proof (cases authHeader)
  case None
  then show ?thesis
    by (simp add: get_next_order_rev1_def post_auth_log_def spec_bearer_rejected_def)
next
  case (Some h)
  show ?thesis
  proof (cases "startsWith h ''Bearer ''")
    case False
    then show ?thesis using Some
      by (simp add: get_next_order_rev1_def post_auth_log_def spec_bearer_rejected_def)
  next
    case True
    note sw = this
    then have ne: "h \<noteq> []" by (rule startsWith_nonempty)
    show ?thesis
    proof (cases "palmDevice_findUnique (substring h 7) d")
      case None
      then have "\<forall>dev \<in> set (palmDevices d). device_apiToken dev \<noteq> substring h 7"
        by (simp add: palmDevice_findUnique_None)
      then show ?thesis using Some sw ne None
        by (simp add: get_next_order_rev1_def post_auth_log_def spec_bearer_rejected_def)
    next
      case (Some dev)
      from palmDevice_findUnique_Some [OF Some]
      have dev: "dev \<in> set (palmDevices d)" "device_apiToken dev = substring h 7" by auto
      then have nr: "\<not> spec_bearer_rejected authHeader d"
        using \<open>authHeader = Some h\<close> sw by (auto simp: spec_bearer_rejected_def)
      have g: "get_next_order_rev1 authHeader d =
           Json200 (order_findFirst_pending
                      (\<lambda>r. order_palmDeviceId r = Some (device_id dev)) d)"
        using \<open>authHeader = Some h\<close> sw ne Some by (simp add: get_next_order_rev1_def)
      obtain authLog where p: "post_auth_log new_id now authHeader body d =
                      (Json200 authLog, d\<lparr>deviceAuthenticationLogs :=
                                             deviceAuthenticationLogs d @ [authLog]\<rparr>)"
         and pid: "dlog_palmDeviceId authLog = Some (device_id dev)"
        using \<open>authHeader = Some h\<close> sw Some
        by (simp add: post_auth_log_def deviceAuthenticationLog_create_def Let_def)
      show ?thesis using nr g p pid dev \<open>authHeader = Some h\<close> by auto
    qed
  qed
qed

theorem bearer_lookup_401_iff_rejected_witness:
  "spec_bearer_rejected None example_db \<and>
   spec_bearer_rejected (Some ''bearer tok1'') example_db \<and>
   spec_bearer_rejected (Some ''Bearer tok'') example_db \<and>
   status_of (get_next_order_rev1 (Some ''Bearer tok'') example_db) = 401 \<and>
   post_auth_log ''g1'' 77 (Some ''Bearer tok'') \<lparr>abody_deviceType = None, abody_location = None, abody_success = Some True, abody_reason = Some ''ok''\<rparr> example_db
     = (Error 401 ''Invalid token'', example_db) \<and>
   \<not> spec_bearer_rejected (Some ''Bearer tok1'') example_db \<and>
   status_of (get_next_order_rev1 (Some ''Bearer tok1'') example_db) = 200 \<and>
   status_of (fst (post_auth_log ''g1'' 77 (Some ''Bearer tok1'') \<lparr>abody_deviceType = None, abody_location = None, abody_success = Some True, abody_reason = Some ''ok''\<rparr> example_db)) = 200"
  using bearer_lookup_401_iff_rejected [of "Some ''Bearer tok''" example_db "''g1''" 77
      "\<lparr>abody_deviceType = None, abody_location = None, abody_success = Some True, abody_reason = Some ''ok''\<rparr>"]
    bearer_lookup_401_iff_rejected [of "Some ''Bearer tok1''" example_db "''g1''" 77
      "\<lparr>abody_deviceType = None, abody_location = None, abody_success = Some True, abody_reason = Some ''ok''\<rparr>"]
  by (simp add: spec_bearer_rejected_def startsWith_def substring_def example_db_def
      get_next_order_rev1_def post_auth_log_def palmDevice_findUnique_def Let_def)

subsection \<open>Completing an order\<close>

lemma update_first_list_update:
  "find P xs = Some x \<Longrightarrow> \<exists>i < length xs. xs ! i = x \<and> update_first P f xs = xs[i := f x]"
proof (induction xs)
  case Nil
  then show ?case by simp
next
  case (Cons y ys)
  show ?case
  proof (cases "P y")
    case True
    with Cons.prems have "y = x" by simp
    with True have "(y # ys) ! 0 = x \<and> update_first P f (y # ys) = (y # ys)[0 := f x]" by simp
    then show ?thesis by blast
  next
    case False
    with Cons obtain i where "i < length ys" "ys ! i = x" "update_first P f ys = ys[i := f x]"
      by auto
    with False have "Suc i < length (y # ys) \<and> (y # ys) ! Suc i = x \<and>
        update_first P f (y # ys) = (y # ys)[Suc i := f x]" by simp
    then show ?thesis by blast
  qed
qed

text \<open>
  Claim C4. In the later revision, completing an order that exists answers 200 and changes
  that one row and nothing else in the store. In the row, completedAt becomes the current
  time, status becomes the status of the body (it stays when the body has none), and
  customerName becomes the customerName of the body only when that is supplied and not
  empty; every other field, customerId in particular, stays as it was, whatever
  customerId the body carries.
\<close>

theorem complete_order_rev2_frame:
  assumes "find (\<lambda>r. order_id r = oid) (orders d) = Some row"
  shows "\<exists>row' i. complete_order_rev2 now oid body d =
             (Json200 (row', ''Order completed''), d\<lparr>orders := (orders d)[i := row']\<rparr>) \<and>
           i < length (orders d) \<and> orders d ! i = row \<and>
           row' = row\<lparr>order_status :=
                        (case cbody_status body of None \<Rightarrow> order_status row | Some s \<Rightarrow> s),
                      order_completedAt := Some now,
                      order_customerName :=
                        (if truthy (cbody_customerName body) then cbody_customerName body
                         else order_customerName row)\<rparr> \<and>
           order_customerId row' = order_customerId row \<and>
           order_id row' = order_id row \<and>
           order_totalAmount row' = order_totalAmount row \<and>
           order_palmDeviceId row' = order_palmDeviceId row \<and>
           order_createdAt row' = order_createdAt row \<and>
           order_items row' = order_items row"
proof -
  define dat where "dat = \<lparr>data_status = cbody_status body, data_completedAt = Some now,
                 data_customerName =
                   (if truthy (cbody_customerName body) then cbody_customerName body
                    else None)\<rparr>"
  define row' where "row' = apply_order_data dat row"
  from update_first_list_update [OF assms, of "apply_order_data dat"]
  obtain i where i: "i < length (orders d)" "orders d ! i = row"
    "update_first (\<lambda>r. order_id r = oid) (apply_order_data dat) (orders d) = (orders d)[i := row']"
    by (auto simp: row'_def)
  have run: "complete_order_rev2 now oid body d =
      (Json200 (row', ''Order completed''), d\<lparr>orders := (orders d)[i := row']\<rparr>)"
    using assms i(3)
    by (simp add: complete_order_rev2_def order_update_def Let_def dat_def [symmetric]
        row'_def [symmetric])
  have shape: "row' = row\<lparr>order_status :=
                        (case cbody_status body of None \<Rightarrow> order_status row | Some s \<Rightarrow> s),
                      order_completedAt := Some now,
                      order_customerName :=
                        (if truthy (cbody_customerName body) then cbody_customerName body
                         else order_customerName row)\<rparr>"
    by (cases "cbody_customerName body")
       (simp_all add: row'_def dat_def apply_order_data_def truthy_def)
  have frame: "order_customerId row' = order_customerId row \<and>
           order_id row' = order_id row \<and>
           order_totalAmount row' = order_totalAmount row \<and>
           order_palmDeviceId row' = order_palmDeviceId row \<and>
           order_createdAt row' = order_createdAt row \<and>
           order_items row' = order_items row"
    by (simp add: shape)
  show ?thesis using run i(1,2) shape frame by blast
qed

theorem complete_order_rev2_frame_witness:
  "find (\<lambda>r. order_id r = ''o2'') (orders example_db) =
     Some (example_order ''o2'' ''pending'' (Some ''d1'') 100) \<and>
   complete_order_rev2 5000 ''o2''
     \<lparr>cbody_status = Some ''completed'', cbody_customerId = Some ''c404'',
      cbody_customerName = Some ''Bob''\<rparr> example_db =
     (Json200 ((example_order ''o2'' ''completed'' (Some ''d1'') 100)
                 \<lparr>order_completedAt := Some 5000, order_customerName := Some ''Bob''\<rparr>,
               ''Order completed''),
      example_db\<lparr>orders :=
        [example_order ''o1'' ''pending'' (Some ''d2'') 200,
         (example_order ''o2'' ''completed'' (Some ''d1'') 100)
           \<lparr>order_completedAt := Some 5000, order_customerName := Some ''Bob''\<rparr>,
         example_order ''o3'' ''completed'' (Some ''d1'') 50]\<rparr>)"
proof -
  have h: "find (\<lambda>r. order_id r = ''o2'') (orders example_db) =
     Some (example_order ''o2'' ''pending'' (Some ''d1'') 100)"
    by (simp add: example_db_def example_order_def)
  show ?thesis
    using h complete_order_rev2_frame [OF h, of 5000
      "\<lparr>cbody_status = Some ''completed'', cbody_customerId = Some ''c404'',
      cbody_customerName = Some ''Bob''\<rparr>"]
    by (simp add: complete_order_rev2_def order_update_def apply_order_data_def truthy_def
        example_db_def example_order_def)
qed

subsection \<open>Deleting a user\<close>

lemma dependents_deleted:
  "\<not> user_referenced userId
       (authenticationLog_deleteMany userId
          (palmTemplate_deleteMany userId (card_deleteMany userId d)))"
  by (auto simp: user_referenced_def authenticationLog_deleteMany_def
      palmTemplate_deleteMany_def card_deleteMany_def)

lemma deleteMany_keeps_users:
  "users (authenticationLog_deleteMany userId
            (palmTemplate_deleteMany userId (card_deleteMany userId d))) = users d"
  by (simp add: authenticationLog_deleteMany_def palmTemplate_deleteMany_def
      card_deleteMany_def)

text \<open>
  Claim C7. DELETE /api/v1/users/:userId deletes the user's Cards, PalmTemplates and
  AuthenticationLogs and only then the User row: for a user that exists the User delete
  runs on a store without dependent rows, so the handler answers 200, and afterwards the
  user and every Card, PalmTemplate and AuthenticationLog of the user are gone, the rows
  of other users being kept. Deleting the User row first would be refused while a
  dependent row exists. For a user id that does not exist the handler answers 500.
\<close>

theorem delete_user_cascade:
  "(userId \<in> set (map user_id (users d)) \<longrightarrow>
      (\<exists>d'. delete_user userId d = (Json200 (True, ''User deleted successfully''), d') \<and>
            user_delete userId
              (authenticationLog_deleteMany userId
                 (palmTemplate_deleteMany userId (card_deleteMany userId d))) = Inr d' \<and>
            userId \<notin> set (map user_id (users d')) \<and>
            \<not> user_referenced userId d' \<and>
            users d' = filter (\<lambda>u. user_id u \<noteq> userId) (users d) \<and>
            cards d' = filter (\<lambda>c. card_userId c \<noteq> userId) (cards d) \<and>
            palmTemplates d' = filter (\<lambda>t. template_userId t \<noteq> userId) (palmTemplates d) \<and>
            authenticationLogs d' =
              filter (\<lambda>l. log_userId l \<noteq> userId) (authenticationLogs d))) \<and>
   (userId \<in> set (map user_id (users d)) \<and> user_referenced userId d \<longrightarrow>
      user_delete userId d = Inl ConstraintViolation) \<and>
   (userId \<notin> set (map user_id (users d)) \<longrightarrow>
      status_of (fst (delete_user userId d)) = 500)"
proof -
  let ?d3 = "authenticationLog_deleteMany userId
               (palmTemplate_deleteMany userId (card_deleteMany userId d))"
  have nr: "\<not> user_referenced userId ?d3" by (rule dependents_deleted)
  have us: "users ?d3 = users d" by (rule deleteMany_keeps_users)
  have absent: "userId \<notin> set (map user_id (users d)) \<longrightarrow>
      status_of (fst (delete_user userId d)) = 500"
    using us by (simp add: delete_user_def user_delete_def Let_def)
  have first: "userId \<in> set (map user_id (users d)) \<and> user_referenced userId d \<longrightarrow>
      user_delete userId d = Inl ConstraintViolation"
    by (simp add: user_delete_def)
  have present: "userId \<in> set (map user_id (users d)) \<longrightarrow>
      (\<exists>d'. delete_user userId d = (Json200 (True, ''User deleted successfully''), d') \<and>
            user_delete userId ?d3 = Inr d' \<and>
            userId \<notin> set (map user_id (users d')) \<and>
            \<not> user_referenced userId d' \<and>
            users d' = filter (\<lambda>u. user_id u \<noteq> userId) (users d) \<and>
            cards d' = filter (\<lambda>c. card_userId c \<noteq> userId) (cards d) \<and>
            palmTemplates d' = filter (\<lambda>t. template_userId t \<noteq> userId) (palmTemplates d) \<and>
            authenticationLogs d' =
              filter (\<lambda>l. log_userId l \<noteq> userId) (authenticationLogs d))"
  proof
    assume ex: "userId \<in> set (map user_id (users d))"
    define d' where "d' = ?d3\<lparr>users := filter (\<lambda>u. user_id u \<noteq> userId) (users ?d3)\<rparr>"
    have ud: "user_delete userId ?d3 = Inr d'"
      using ex us nr by (simp add: user_delete_def d'_def)
    then have run: "delete_user userId d = (Json200 (True, ''User deleted successfully''), d')"
      by (simp add: delete_user_def Let_def)
    have tabs: "users d' = filter (\<lambda>u. user_id u \<noteq> userId) (users d)"
      "cards d' = filter (\<lambda>c. card_userId c \<noteq> userId) (cards d)"
      "palmTemplates d' = filter (\<lambda>t. template_userId t \<noteq> userId) (palmTemplates d)"
      "authenticationLogs d' = filter (\<lambda>l. log_userId l \<noteq> userId) (authenticationLogs d)"
      by (simp_all add: d'_def authenticationLog_deleteMany_def palmTemplate_deleteMany_def
          card_deleteMany_def)
    have gone: "userId \<notin> set (map user_id (users d'))" by (auto simp: tabs)
    have orph: "\<not> user_referenced userId d'" by (auto simp: user_referenced_def tabs)
    show "\<exists>d'. delete_user userId d = (Json200 (True, ''User deleted successfully''), d') \<and>
            user_delete userId ?d3 = Inr d' \<and>
            userId \<notin> set (map user_id (users d')) \<and>
            \<not> user_referenced userId d' \<and>
            users d' = filter (\<lambda>u. user_id u \<noteq> userId) (users d) \<and>
            cards d' = filter (\<lambda>c. card_userId c \<noteq> userId) (cards d) \<and>
            palmTemplates d' = filter (\<lambda>t. template_userId t \<noteq> userId) (palmTemplates d) \<and>
            authenticationLogs d' =
              filter (\<lambda>l. log_userId l \<noteq> userId) (authenticationLogs d)"
      using run ud gone orph tabs by blast
  qed
  show ?thesis using present first absent by blast
qed

theorem delete_user_cascade_witness:
  "''u1'' \<in> set (map user_id (users example_db)) \<and>
   user_referenced ''u1'' example_db \<and>
   user_delete ''u1'' example_db = Inl ConstraintViolation \<and>
   fst (delete_user ''u1'' example_db) = Json200 (True, ''User deleted successfully'') \<and>
   users (snd (delete_user ''u1'' example_db)) = [\<lparr>user_id = ''u2'', user_displayName = ''Bob''\<rparr>] \<and>
   cards (snd (delete_user ''u1'' example_db)) = [\<lparr>card_id = ''k2'', card_userId = ''u2''\<rparr>] \<and>
   palmTemplates (snd (delete_user ''u1'' example_db)) = [] \<and>
   authenticationLogs (snd (delete_user ''u1'' example_db)) =
     [\<lparr>log_id = ''l2'', log_userId = ''u2'', log_authenticatedAt = 20\<rparr>] \<and>
   ''u7'' \<notin> set (map user_id (users example_db)) \<and>
   fst (delete_user ''u7'' example_db) = Error 500 ''Failed to delete user''"
  using delete_user_cascade [of "''u1''" example_db] delete_user_cascade [of "''u7''" example_db]
  by (simp add: delete_user_def user_delete_def user_referenced_def
      authenticationLog_deleteMany_def palmTemplate_deleteMany_def card_deleteMany_def
      example_db_def Let_def)

subsection \<open>Creating an order\<close>

lemma totalAmount_of_spec_total: "totalAmount_of parseFloat items = spec_total parseFloat items"
  by (simp add: totalAmount_of_def spec_total_def foldl_map)

lemma foldl_plus_sum_list: "foldl (+) a xs = a + sum_list (xs :: 'a::monoid_add list)"
  by (induction xs arbitrary: a) (simp_all add: add.assoc)

lemma spec_total_sum_list:
  "spec_total parseFloat items =
     (\<Sum>item\<leftarrow>items. parseFloat (item_price item) * (item_quantity item :: 'n::semiring_0))"
  by (simp add: spec_total_def foldl_plus_sum_list)

lemma create_items_same: "create_items items = items"
  by (induction items) (simp_all add: create_items_def)

lemma post_orders_rev2_Json200:
  assumes "post_orders_rev2 accepts parseFloat new_id now body d = (Json200 v, d')"
  shows "\<exists>items. body_items body = Some items \<and>
           order_totalAmount (created_order v) = spec_total parseFloat items \<and>
           order_items (created_order v) = items \<and>
           orders d' = orders d @ [created_order v]"
proof (cases "body_items body")
  case None
  with assms show ?thesis by (simp add: post_orders_rev2_def)
next
  case (Some items)
  with assms show ?thesis
    by (auto simp: post_orders_rev2_def order_create_def Let_def include_created_def
        create_items_same totalAmount_of_spec_total split: if_splits)
qed

lemma post_orders_rev1_Json200:
  assumes "post_orders_rev1 accepts parseFloat new_id now body d = (Json200 v, d')"
  shows "post_orders_rev2 accepts parseFloat new_id now body d = (Json200 v, d')"
  using assms by (simp add: post_orders_rev1_def split: if_splits)

text \<open>
  Claim C1. Whenever POST /api/orders, in either revision, answers 200, the body carried
  an item list, the order returned and stored has exactly these items, with the prices
  as submitted, and its totalAmount is the sum over them of price times quantity. The
  product table is not consulted: the total is the same whatever the store holds. The
  arithmetic is JavaScript's (\<open>+\<close> and \<open>*\<close> of the number type, added up from 0 in
  the order of the list); in exact arithmetic this is the sum (\<open>spec_total_sum_list\<close>).
\<close>

theorem order_total_is_sum_of_submitted_lines:
  assumes "post_orders_rev1 accepts parseFloat new_id now body d = (Json200 v, d') \<or>
           post_orders_rev2 accepts parseFloat new_id now body d = (Json200 v, d')"
  shows "\<exists>items. body_items body = Some items \<and>
           order_totalAmount (created_order v) = spec_total parseFloat items \<and>
           order_items (created_order v) = items \<and>
           orders d' = orders d @ [created_order v]"
  using assms post_orders_rev1_Json200 post_orders_rev2_Json200 by blast

theorem order_total_is_sum_of_submitted_lines_witness:
  "\<exists>v d'. post_orders_rev1 referential_ok (\<lambda>p. p) ''o9'' 999 example_body example_db
             = (Json200 v, d') \<and>
          order_totalAmount (created_order v) = 12 \<and>
          map item_price (order_items (created_order v)) = [7 / 2, 5] \<and>
          map (map_option product_price) (created_item_products v) = [Some 4, Some 3]"
proof -
  define row :: "(rat, rat) order" where
    "row = \<lparr>order_id = ''o9'', order_customerId = None, order_customerName = Some ''Ada'',
            order_status = ''pending'', order_totalAmount = 12,
            order_palmDeviceId = Some ''d1'', order_createdAt = 999,
            order_completedAt = None,
            order_items = [\<lparr>item_productId = ''p1'', item_quantity = 2, item_price = 7 / 2\<rparr>,
                           \<lparr>item_productId = ''p3'', item_quantity = 1, item_price = 5\<rparr>]\<rparr>"
  define d' where "d' = example_db\<lparr>orders := orders example_db @ [row]\<rparr>"
  have run: "post_orders_rev1 referential_ok (\<lambda>p. p) ''o9'' 999 example_body example_db
             = (Json200 (include_created d' row), d')"
    by (simp add: post_orders_rev1_def post_orders_rev2_def order_create_def Let_def
        referential_ok_def totalAmount_of_def create_items_def truthy_def example_body_def
        example_db_def example_product_def d'_def row_def)
  from order_total_is_sum_of_submitted_lines [OF disjI1, OF run]
  have "order_totalAmount (created_order (include_created d' row)) =
        spec_total (\<lambda>p. p) (the (body_items example_body))"
    by auto
  then have t1: "order_totalAmount (created_order (include_created d' row)) = 12"
    by (simp add: spec_total_def example_body_def)
  have t2: "map item_price (order_items (created_order (include_created d' row))) = [7 / 2, 5]"
    by (simp add: include_created_def row_def)
  have t3: "map (map_option product_price) (created_item_products (include_created d' row))
      = [Some 4, Some 3]"
    by (simp add: include_created_def product_of_def row_def d'_def example_db_def
        example_product_def)
  show ?thesis
    by (rule exI [where x = "include_created d' row"], rule exI [where x = d'])
       (intro conjI run t1 t2 t3)
qed




subsection \<open>Enrollment tokens\<close>

text \<open>
  Claim C2 says that at or after the expiry instant the first read of a stored token
  answers 410 and deletes it. The handler compares with \<open>Date.now() > expiresAt\<close>, so
  at the expiry instant itself the read still answers 200 with the payload and keeps the
  token.
\<close>

theorem get_enrollment_at_expiry_instant_counterexample:
  "example_tokens ''a1b2'' =
     Some \<lparr>palmFeatures = ''features'', createdAt = 1000, expiresAt = 601000\<rparr> \<and>
   fst (get_enrollment 601000 ''a1b2'' example_tokens) = Json200 (''features'', 1000) \<and>
   status_of (fst (get_enrollment 601000 ''a1b2'' example_tokens)) \<noteq> 410 \<and>
   snd (get_enrollment 601000 ''a1b2'' example_tokens) ''a1b2'' =
     Some \<lparr>palmFeatures = ''features'', createdAt = 1000, expiresAt = 601000\<rparr>"
  by (simp add: get_enrollment_def example_tokens_def)

text \<open>
  Claim C2, amended. For a token in the store, GET /api/v1/palm/enrollment/:token answers
  200 with the stored palmFeatures at every instant up to and including the expiry
  instant and leaves the store as it is; strictly after the expiry instant the read
  answers 410 and deletes the token, and every later read of it answers 404. A token that
  is not in the store answers 404. A token just generated is read back with the features
  it was generated with, up to ten minutes after the second clock reading.
\<close>

theorem get_enrollment_lifecycle:
  "(store token = None \<longrightarrow>
      get_enrollment now token store =
        (Error 404 ''Enrollment token not found or expired'', store)) \<and>
   (\<forall>e. store token = Some e \<longrightarrow>
      (now \<le> expiresAt e \<longrightarrow>
         get_enrollment now token store = (Json200 (palmFeatures e, createdAt e), store)) \<and>
      (expiresAt e < now \<longrightarrow>
         get_enrollment now token store =
           (Error 410 ''Enrollment token expired'', store(token := None)) \<and>
         (\<forall>later. get_enrollment later token (store(token := None)) =
            (Error 404 ''Enrollment token not found or expired'', store(token := None))))) \<and>
   (now \<le> t2 + 600000 \<longrightarrow>
      fst (get_enrollment now token (snd (generate_enrollment_qr token t1 t2 features store)))
        = Json200 (features, t1))"
  by (simp add: get_enrollment_def generate_enrollment_qr_def)

theorem get_enrollment_lifecycle_witness:
  "example_tokens ''a1b2'' =
     Some \<lparr>palmFeatures = ''features'', createdAt = 1000, expiresAt = 601000\<rparr> \<and>
   example_tokens ''ffff'' = None \<and>
   get_enrollment 5000 ''ffff'' example_tokens =
     (Error 404 ''Enrollment token not found or expired'', example_tokens) \<and>
   get_enrollment 600999 ''a1b2'' example_tokens =
     (Json200 (''features'', 1000), example_tokens) \<and>
   get_enrollment 601001 ''a1b2'' example_tokens =
     (Error 410 ''Enrollment token expired'', example_tokens(''a1b2'' := None)) \<and>
   get_enrollment 601002 ''a1b2'' (example_tokens(''a1b2'' := None)) =
     (Error 404 ''Enrollment token not found or expired'', example_tokens(''a1b2'' := None))"
  using get_enrollment_lifecycle [of example_tokens "''ffff''" 5000]
    get_enrollment_lifecycle [of example_tokens "''a1b2''" 600999]
    get_enrollment_lifecycle [of example_tokens "''a1b2''" 601001]
  by (simp add: example_tokens_def)

subsection \<open>The paginated log endpoints\<close>

lemmas parseInt_eval =
  parseInt_def js_def isStrWhiteSpaceChar_def digit_value_def digits_value_def to_double_def
  bit_length.simps Let_def

lemma parseInt_undefined: "parseInt (js ''undefined'') = NaN"
  by (simp add: parseInt_eval)

lemma parseInt_examples:
  "parseInt (js ''abc'') = NaN" "parseInt (js '''') = NaN" "parseInt (js ''0'') = Num 0"
  "parseInt (js ''-0'') = Num 0" "parseInt (js ''50'') = Num 50" "parseInt (js ''1'') = Num 1"
  "parseInt (js ''-1'') = Num (- 1)" "parseInt (js '' 12px'') = Num 12"
  "parseInt (js ''0x1F'') = Num 31" "parseInt (160 # js ''1'') = Num 1"
  by (simp_all add: parseInt_eval)

lemma parseInt_rounds_to_double:
  "parseInt (js ''9007199254740993'') = Num 9007199254740992"
  "parseInt (js ''9223372036854775807'') = Num 9223372036854775808"
  "parseInt (js ''100000000000000000000'') = Num 100000000000000000000"
  by (simp_all add: parseInt_eval)

lemma or_number_defaulted:
  "spec_defaulted q \<Longrightarrow> or_number (query_parseInt q) dflt = Num dflt"
  by (cases q)
     (auto simp: spec_defaulted_def query_parseInt_def or_number_def parseInt_undefined)

lemma or_number_not_defaulted:
  "\<not> spec_defaulted q \<Longrightarrow>
     \<exists>s. q = Some s \<and> parseInt s \<noteq> NaN \<and> parseInt s \<noteq> Num 0 \<and>
         or_number (query_parseInt q) dflt = parseInt s"
  by (cases q) (auto simp: spec_defaulted_def query_parseInt_def or_number_def)

lemma int64_Some: "int64 v = Some n \<Longrightarrow> v = Num n \<and> - (2 ^ 63) \<le> n \<and> n < 2 ^ 63"
  by (cases v) (auto simp: int64_def split: if_splits)

lemma int64_small: "- (2 ^ 63) \<le> n \<Longrightarrow> n < 2 ^ 63 \<Longrightarrow> int64 (Num n) = Some n"
  by (simp add: int64_def)

lemma orderBy_desc_sorted:
  "sorted_wrt (\<lambda>a b. key b \<le> key a) (orderBy_desc key rows)"
proof -
  have "sorted_wrt (\<lambda>a b. key a \<le> key b) (sort_key key rows)"
    using sorted_sort_key [of key rows] by (simp add: sorted_map)
  then show ?thesis by (simp add: orderBy_desc_def sorted_wrt_rev)
qed

lemma take_skip_refused:
  "int64 tk = None \<or> int64 sk = None \<or> (\<exists>k. int64 sk = Some k \<and> k < 0) \<Longrightarrow>
     take_skip tk sk rows = Inl ValidationError"
  by (auto simp: take_skip_def split: option.splits)

lemma take_skip_forward:
  "int64 tk = Some t \<Longrightarrow> int64 sk = Some k \<Longrightarrow> 0 \<le> k \<Longrightarrow> 0 \<le> t \<Longrightarrow>
     take_skip tk sk rows = Inr (take (nat t) (drop (nat k) rows))"
  by (simp add: take_skip_def)

lemma take_skip_backward:
  "int64 tk = Some t \<Longrightarrow> int64 sk = Some k \<Longrightarrow> 0 \<le> k \<Longrightarrow> t < 0 \<Longrightarrow>
     take_skip tk sk rows = Inr (rev (take (nat (- t)) (drop (nat k) (rev rows))))"
  by (simp add: take_skip_def)

lemma take_skip_page:
  assumes "int64 tk = Some t" "int64 sk = Some k" "0 \<le> k"
  shows "\<exists>page. take_skip tk sk rows = Inr page \<and> set page \<subseteq> set rows \<and>
           int (length page) \<le> \<bar>t\<bar> \<and> (sorted_wrt P rows \<longrightarrow> sorted_wrt P page)"
proof (cases "0 \<le> t")
  case True
  define page where "page = take (nat t) (drop (nat k) rows)"
  have run: "take_skip tk sk rows = Inr page"
    using assms True by (simp add: take_skip_forward page_def)
  have "set page \<subseteq> set rows"
    unfolding page_def by (meson set_take_subset set_drop_subset subset_trans)
  moreover have "int (length page) \<le> \<bar>t\<bar>" unfolding page_def using True by simp
  moreover have "sorted_wrt P rows \<longrightarrow> sorted_wrt P page"
    unfolding page_def by (simp add: sorted_wrt_take sorted_wrt_drop)
  ultimately show ?thesis using run by blast
next
  case False
  define page where "page = rev (take (nat (- t)) (drop (nat k) (rev rows)))"
  have run: "take_skip tk sk rows = Inr page"
    using assms False by (simp add: take_skip_backward page_def)
  have "set (take (nat (- t)) (drop (nat k) (rev rows))) \<subseteq> set (rev rows)"
    by (meson set_take_subset set_drop_subset subset_trans)
  then have "set page \<subseteq> set rows" unfolding page_def by simp
  moreover have "int (length page) \<le> \<bar>t\<bar>" unfolding page_def using False by simp
  moreover have "sorted_wrt P rows \<longrightarrow> sorted_wrt P page"
  proof
    assume "sorted_wrt P rows"
    then have "sorted_wrt (\<lambda>x y. P y x) (rev rows)" by (simp add: sorted_wrt_rev)
    then have "sorted_wrt (\<lambda>x y. P y x) (take (nat (- t)) (drop (nat k) (rev rows)))"
      by (simp add: sorted_wrt_take sorted_wrt_drop)
    then show "sorted_wrt P page" unfolding page_def by (simp add: sorted_wrt_rev)
  qed
  ultimately show ?thesis using run by blast
qed

lemma get_auth_history_cases:
  "get_auth_history userId q_limit q_offset d =
     (case authenticationLog_findMany userId (or_number (query_parseInt q_limit) 50)
             (or_number (query_parseInt q_offset) 0) d of
        Inl _ \<Rightarrow> Error 500 ''Failed to fetch authentication history''
      | Inr logs \<Rightarrow>
          Json200 \<lparr>history_logs = logs, history_total = length logs,
                   history_limit = or_number (query_parseInt q_limit) 50,
                   history_offset = or_number (query_parseInt q_offset) 0\<rparr>)"
  by (simp add: get_auth_history_def Let_def)

lemma get_auth_logs_cases:
  "get_auth_logs userId q_limit q_offset d =
     (case authenticationLog_findMany userId (or_number (query_parseInt q_limit) 50)
             (or_number (query_parseInt q_offset) 0) d of
        Inl _ \<Rightarrow> Error 500 ''Failed to fetch authentication logs''
      | Inr logs \<Rightarrow> Json200 logs)"
  by (simp add: get_auth_logs_def Let_def)

lemmas auth_logs_eval =
  get_auth_history_cases get_auth_logs_cases authenticationLog_findMany_def take_skip_def
  int64_def orderBy_desc_def or_number_def query_parseInt_def parseInt_examples
  parseInt_undefined parseInt_rounds_to_double

text \<open>
  Claim C8 says that the total of the response is at most the limit. The limit of the
  query is passed on as it parses, also when negative: with \<open>limit=-1\<close> the page holds
  the user's oldest log, so the total is 1 and the limit reported is -1.
\<close>

theorem auth_history_negative_limit_counterexample:
  "get_auth_history ''u1'' (Some (js ''-1'')) None example_db =
     Json200 \<lparr>history_logs = [\<lparr>log_id = ''l1'', log_userId = ''u1'', log_authenticatedAt = 10\<rparr>],
              history_total = 1, history_limit = Num (- 1), history_offset = Num 0\<rparr> \<and>
   \<not> (1::int) \<le> - 1"
  by (simp add: auth_logs_eval example_db_def)

text \<open>
  Claim C8, amended. GET /api/v1/users/:userId/auth-history takes limit and offset from
  the query, 50 and 0 when absent. When the limit or the offset is no 64-bit integer, or
  the offset is negative, it answers 500. Otherwise it answers 200 and echoes limit and
  offset; the logs are rows of the user from the store, in descending order of time, and
  they are the requested page of the user's rows in that order: the first \<open>limit\<close> rows
  after the first \<open>offset\<close> when the limit is positive, and for a negative limit the
  last \<open>-limit\<close> rows before the last \<open>offset\<close>. The total is the number of logs in
  this page, hence at most the absolute value of the limit (at most the limit when that
  is positive), and not the number of the user's rows.
\<close>

theorem auth_history_page_and_total:
  fixes userId :: string and q_limit q_offset :: "js_string option" and d :: "('p, 'n) db"
  defines "limit \<equiv> or_number (query_parseInt q_limit) 50"
    and "offset \<equiv> or_number (query_parseInt q_offset) 0"
    and "rows \<equiv> orderBy_desc log_authenticatedAt
                   (filter (\<lambda>l. log_userId l = userId) (authenticationLogs d))"
  shows
  "(q_limit = None \<longrightarrow> limit = Num 50) \<and> (q_offset = None \<longrightarrow> offset = Num 0) \<and>
   (int64 limit = None \<or> int64 offset = None \<or> (\<exists>k. int64 offset = Some k \<and> k < 0) \<longrightarrow>
      get_auth_history userId q_limit q_offset d =
        Error 500 ''Failed to fetch authentication history'') \<and>
   (\<forall>l k. int64 limit = Some l \<and> int64 offset = Some k \<and> 0 \<le> k \<longrightarrow>
      (\<exists>h. get_auth_history userId q_limit q_offset d = Json200 h \<and>
           history_limit h = Num l \<and> history_offset h = Num k \<and>
           history_total h = length (history_logs h) \<and>
           int (history_total h) \<le> \<bar>l\<bar> \<and>
           (0 < l \<longrightarrow>
              history_logs h = take (nat l) (drop (nat k) rows) \<and>
              int (history_total h) \<le> l) \<and>
           (l < 0 \<longrightarrow>
              history_logs h = rev (take (nat (- l)) (drop (nat k) (rev rows)))) \<and>
           set (history_logs h) \<subseteq>
             {l \<in> set (authenticationLogs d). log_userId l = userId} \<and>
           sorted_wrt (\<lambda>a b. log_authenticatedAt b \<le> log_authenticatedAt a)
             (history_logs h)))"
proof -
  have dl: "q_limit = None \<longrightarrow> limit = Num 50"
    by (simp add: limit_def query_parseInt_def parseInt_undefined or_number_def)
  have dof: "q_offset = None \<longrightarrow> offset = Num 0"
    by (simp add: offset_def query_parseInt_def parseInt_undefined or_number_def)
  have fm: "authenticationLog_findMany userId limit offset d = take_skip limit offset rows"
    by (simp add: authenticationLog_findMany_def rows_def)
  have cases: "get_auth_history userId q_limit q_offset d =
     (case take_skip limit offset rows of
        Inl _ \<Rightarrow> Error 500 ''Failed to fetch authentication history''
      | Inr logs \<Rightarrow>
          Json200 \<lparr>history_logs = logs, history_total = length logs,
                   history_limit = limit, history_offset = offset\<rparr>)"
    unfolding get_auth_history_cases limit_def [symmetric] offset_def [symmetric] fm ..
  have neg: "int64 limit = None \<or> int64 offset = None \<or> (\<exists>k. int64 offset = Some k \<and> k < 0) \<longrightarrow>
      get_auth_history userId q_limit q_offset d =
        Error 500 ''Failed to fetch authentication history''"
  proof
    assume "int64 limit = None \<or> int64 offset = None \<or> (\<exists>k. int64 offset = Some k \<and> k < 0)"
    then have "take_skip limit offset rows = Inl ValidationError" by (rule take_skip_refused)
    then show "get_auth_history userId q_limit q_offset d =
        Error 500 ''Failed to fetch authentication history''"
      by (simp add: cases)
  qed
  have pos: "\<exists>h. get_auth_history userId q_limit q_offset d = Json200 h \<and>
           history_limit h = Num l \<and> history_offset h = Num k \<and>
           history_total h = length (history_logs h) \<and>
           int (history_total h) \<le> \<bar>l\<bar> \<and>
           (0 < l \<longrightarrow>
              history_logs h = take (nat l) (drop (nat k) rows) \<and>
              int (history_total h) \<le> l) \<and>
           (l < 0 \<longrightarrow>
              history_logs h = rev (take (nat (- l)) (drop (nat k) (rev rows)))) \<and>
           set (history_logs h) \<subseteq>
             {l \<in> set (authenticationLogs d). log_userId l = userId} \<and>
           sorted_wrt (\<lambda>a b. log_authenticatedAt b \<le> log_authenticatedAt a)
             (history_logs h)"
    if ok: "int64 limit = Some l" "int64 offset = Some k" "0 \<le> k" for l k
  proof -
    have lim: "limit = Num l" and off: "offset = Num k"
      using ok int64_Some by blast+
    have srt: "sorted_wrt (\<lambda>a b. log_authenticatedAt b \<le> log_authenticatedAt a) rows"
      unfolding rows_def by (rule orderBy_desc_sorted)
    have rs: "set rows = {l \<in> set (authenticationLogs d). log_userId l = userId}"
      by (auto simp: rows_def orderBy_desc_def)
    from take_skip_page [OF ok, of rows "\<lambda>a b. log_authenticatedAt b \<le> log_authenticatedAt a"]
    obtain page where page: "take_skip limit offset rows = Inr page"
      and p: "set page \<subseteq> set rows" "int (length page) \<le> \<bar>l\<bar>"
      "sorted_wrt (\<lambda>a b. log_authenticatedAt b \<le> log_authenticatedAt a) page"
      using srt by auto
    define h where "h = \<lparr>history_logs = page, history_total = length page,
                          history_limit = limit, history_offset = offset\<rparr>"
    have run: "get_auth_history userId q_limit q_offset d = Json200 h"
      by (simp add: cases page h_def)
    have fwd: "0 < l \<longrightarrow> page = take (nat l) (drop (nat k) rows)"
      using page take_skip_forward [OF ok, of rows] by auto
    have bwd: "l < 0 \<longrightarrow> page = rev (take (nat (- l)) (drop (nat k) (rev rows)))"
      using page take_skip_backward [OF ok, of rows] by auto
    have "history_limit h = Num l \<and> history_offset h = Num k \<and>
           history_total h = length (history_logs h) \<and>
           int (history_total h) \<le> \<bar>l\<bar> \<and>
           (0 < l \<longrightarrow>
              history_logs h = take (nat l) (drop (nat k) rows) \<and>
              int (history_total h) \<le> l) \<and>
           (l < 0 \<longrightarrow>
              history_logs h = rev (take (nat (- l)) (drop (nat k) (rev rows)))) \<and>
           set (history_logs h) \<subseteq>
             {l \<in> set (authenticationLogs d). log_userId l = userId} \<and>
           sorted_wrt (\<lambda>a b. log_authenticatedAt b \<le> log_authenticatedAt a)
             (history_logs h)"
      using p fwd bwd rs lim off by (auto simp: h_def)
    with run show ?thesis by blast
  qed
  show ?thesis using dl dof neg pos by blast
qed

theorem auth_history_page_and_total_witness:
  "get_auth_history ''u1'' (Some (js ''1'')) None example_db =
     Json200 \<lparr>history_logs = [\<lparr>log_id = ''l3'', log_userId = ''u1'', log_authenticatedAt = 30\<rparr>],
              history_total = 1, history_limit = Num 1, history_offset = Num 0\<rparr> \<and>
   length (filter (\<lambda>l. log_userId l = ''u1'') (authenticationLogs example_db)) = 2 \<and>
   get_auth_history ''u1'' None None example_db =
     Json200 \<lparr>history_logs = [\<lparr>log_id = ''l3'', log_userId = ''u1'', log_authenticatedAt = 30\<rparr>,
                              \<lparr>log_id = ''l1'', log_userId = ''u1'', log_authenticatedAt = 10\<rparr>],
              history_total = 2, history_limit = Num 50, history_offset = Num 0\<rparr> \<and>
   get_auth_history ''u1'' None (Some (js ''-1'')) example_db =
     Error 500 ''Failed to fetch authentication history'' \<and>
   get_auth_history ''u1'' (Some (js ''100000000000000000000'')) None example_db =
     Error 500 ''Failed to fetch authentication history'' \<and>
   get_auth_history ''u1'' (Some (js ''9223372036854775807'')) None example_db =
     Error 500 ''Failed to fetch authentication history'' \<and>
   get_auth_history ''u1'' (Some (js ''9007199254740993'')) None example_db =
     Json200 \<lparr>history_logs = [\<lparr>log_id = ''l3'', log_userId = ''u1'', log_authenticatedAt = 30\<rparr>,
                              \<lparr>log_id = ''l1'', log_userId = ''u1'', log_authenticatedAt = 10\<rparr>],
              history_total = 2, history_limit = Num 9007199254740992,
              history_offset = Num 0\<rparr>"
  using auth_history_page_and_total [where q_limit = "Some (js ''1'')" and q_offset = None
      and userId = "''u1''" and d = example_db]
    auth_history_page_and_total [where q_limit = None and q_offset = None
      and userId = "''u1''" and d = example_db]
    auth_history_page_and_total [where q_limit = None and q_offset = "Some (js ''-1'')"
      and userId = "''u1''" and d = example_db]
    auth_history_page_and_total [where q_limit = "Some (js ''100000000000000000000'')"
      and q_offset = None and userId = "''u1''" and d = example_db]
  by (simp add: auth_logs_eval example_db_def)

text \<open>
  Claim C10. In both paginated log endpoints a limit parameter that is absent, not numeric
  (\<open>parseInt\<close> gives NaN) or parses to 0 is replaced by 50, and such an offset by 0:
  the answer is the one computed with that value. Any other parameter is used as it
  parses. In particular \<open>limit=0\<close> answers with the first 50 rows of the user, not
  with an empty page.
\<close>

theorem pagination_defaults:
  fixes userId :: string and q_limit q_offset :: "js_string option" and d :: "('p, 'n) db"
  defines "rows \<equiv> orderBy_desc log_authenticatedAt
                   (filter (\<lambda>l. log_userId l = userId) (authenticationLogs d))"
  shows
  "(spec_defaulted q_limit \<longrightarrow>
      get_auth_logs userId q_limit q_offset d =
        (case authenticationLog_findMany userId (Num 50)
                (or_number (query_parseInt q_offset) 0) d of
           Inl _ \<Rightarrow> Error 500 ''Failed to fetch authentication logs''
         | Inr logs \<Rightarrow> Json200 logs) \<and>
      get_auth_history userId q_limit q_offset d =
        (case authenticationLog_findMany userId (Num 50)
                (or_number (query_parseInt q_offset) 0) d of
           Inl _ \<Rightarrow> Error 500 ''Failed to fetch authentication history''
         | Inr logs \<Rightarrow>
             Json200 \<lparr>history_logs = logs, history_total = length logs,
                      history_limit = Num 50,
                      history_offset = or_number (query_parseInt q_offset) 0\<rparr>)) \<and>
   (spec_defaulted q_offset \<longrightarrow>
      get_auth_logs userId q_limit q_offset d =
        (case authenticationLog_findMany userId (or_number (query_parseInt q_limit) 50)
                (Num 0) d of
           Inl _ \<Rightarrow> Error 500 ''Failed to fetch authentication logs''
         | Inr logs \<Rightarrow> Json200 logs) \<and>
      get_auth_history userId q_limit q_offset d =
        (case authenticationLog_findMany userId (or_number (query_parseInt q_limit) 50)
                (Num 0) d of
           Inl _ \<Rightarrow> Error 500 ''Failed to fetch authentication history''
         | Inr logs \<Rightarrow>
             Json200 \<lparr>history_logs = logs, history_total = length logs,
                      history_limit = or_number (query_parseInt q_limit) 50,
                      history_offset = Num 0\<rparr>)) \<and>
   (\<not> spec_defaulted q_limit \<longrightarrow>
      (\<exists>s. q_limit = Some s \<and> parseInt s \<noteq> NaN \<and> parseInt s \<noteq> Num 0 \<and>
           or_number (query_parseInt q_limit) 50 = parseInt s)) \<and>
   (\<not> spec_defaulted q_offset \<longrightarrow>
      (\<exists>s. q_offset = Some s \<and> parseInt s \<noteq> NaN \<and> parseInt s \<noteq> Num 0 \<and>
           or_number (query_parseInt q_offset) 0 = parseInt s)) \<and>
   spec_defaulted None \<and> spec_defaulted (Some (js ''abc'')) \<and>
   spec_defaulted (Some (js ''0'')) \<and>
   (spec_defaulted q_offset \<longrightarrow>
      get_auth_logs userId (Some (js ''0'')) q_offset d = Json200 (take 50 rows) \<and>
      get_auth_history userId (Some (js ''0'')) q_offset d =
        Json200 \<lparr>history_logs = take 50 rows, history_total = length (take 50 rows),
                 history_limit = Num 50, history_offset = Num 0\<rparr>)"
proof -
  have sd: "spec_defaulted None" "spec_defaulted (Some (js ''abc''))"
    "spec_defaulted (Some (js ''0''))"
    by (simp_all add: spec_defaulted_def parseInt_examples)
  have lim: "spec_defaulted q_limit \<longrightarrow> or_number (query_parseInt q_limit) 50 = Num 50"
    by (simp add: or_number_defaulted)
  have off: "spec_defaulted q_offset \<longrightarrow> or_number (query_parseInt q_offset) 0 = Num 0"
    by (simp add: or_number_defaulted)
  have zero: "or_number (query_parseInt (Some (js ''0''))) 50 = Num 50"
    using sd(3) by (simp add: or_number_defaulted)
  have fm: "authenticationLog_findMany userId (Num 50) (Num 0) d = Inr (take 50 rows)"
    by (simp add: authenticationLog_findMany_def take_skip_def int64_def rows_def)
  have a: "spec_defaulted q_limit \<longrightarrow>
      get_auth_logs userId q_limit q_offset d =
        (case authenticationLog_findMany userId (Num 50)
                (or_number (query_parseInt q_offset) 0) d of
           Inl _ \<Rightarrow> Error 500 ''Failed to fetch authentication logs''
         | Inr logs \<Rightarrow> Json200 logs) \<and>
      get_auth_history userId q_limit q_offset d =
        (case authenticationLog_findMany userId (Num 50)
                (or_number (query_parseInt q_offset) 0) d of
           Inl _ \<Rightarrow> Error 500 ''Failed to fetch authentication history''
         | Inr logs \<Rightarrow>
             Json200 \<lparr>history_logs = logs, history_total = length logs,
                      history_limit = Num 50,
                      history_offset = or_number (query_parseInt q_offset) 0\<rparr>)"
    using lim by (simp add: get_auth_logs_cases get_auth_history_cases split: sum.split)
  have b: "spec_defaulted q_offset \<longrightarrow>
      get_auth_logs userId q_limit q_offset d =
        (case authenticationLog_findMany userId (or_number (query_parseInt q_limit) 50)
                (Num 0) d of
           Inl _ \<Rightarrow> Error 500 ''Failed to fetch authentication logs''
         | Inr logs \<Rightarrow> Json200 logs) \<and>
      get_auth_history userId q_limit q_offset d =
        (case authenticationLog_findMany userId (or_number (query_parseInt q_limit) 50)
                (Num 0) d of
           Inl _ \<Rightarrow> Error 500 ''Failed to fetch authentication history''
         | Inr logs \<Rightarrow>
             Json200 \<lparr>history_logs = logs, history_total = length logs,
                      history_limit = or_number (query_parseInt q_limit) 50,
                      history_offset = Num 0\<rparr>)"
    using off by (simp add: get_auth_logs_cases get_auth_history_cases split: sum.split)
  have c: "\<not> spec_defaulted q_limit \<longrightarrow>
      (\<exists>s. q_limit = Some s \<and> parseInt s \<noteq> NaN \<and> parseInt s \<noteq> Num 0 \<and>
           or_number (query_parseInt q_limit) 50 = parseInt s)"
    using or_number_not_defaulted [of q_limit 50] by blast
  have e: "\<not> spec_defaulted q_offset \<longrightarrow>
      (\<exists>s. q_offset = Some s \<and> parseInt s \<noteq> NaN \<and> parseInt s \<noteq> Num 0 \<and>
           or_number (query_parseInt q_offset) 0 = parseInt s)"
    using or_number_not_defaulted [of q_offset 0] by blast
  have z: "spec_defaulted q_offset \<longrightarrow>
      get_auth_logs userId (Some (js ''0'')) q_offset d = Json200 (take 50 rows) \<and>
      get_auth_history userId (Some (js ''0'')) q_offset d =
        Json200 \<lparr>history_logs = take 50 rows, history_total = length (take 50 rows),
                 history_limit = Num 50, history_offset = Num 0\<rparr>"
    using off zero fm by (simp add: get_auth_logs_cases get_auth_history_cases)
  show ?thesis using sd a b c e z by blast
qed

theorem pagination_defaults_witness:
  "spec_defaulted (Some (js ''0'')) \<and> spec_defaulted None \<and>
   \<not> spec_defaulted (Some (js ''1'')) \<and> \<not> spec_defaulted (Some (160 # js ''1'')) \<and>
   get_auth_logs ''u1'' (Some (js ''0'')) None example_db =
     Json200 [\<lparr>log_id = ''l3'', log_userId = ''u1'', log_authenticatedAt = 30\<rparr>,
              \<lparr>log_id = ''l1'', log_userId = ''u1'', log_authenticatedAt = 10\<rparr>] \<and>
   get_auth_history ''u1'' (Some (js ''abc'')) (Some (js '''')) example_db =
     Json200 \<lparr>history_logs = [\<lparr>log_id = ''l3'', log_userId = ''u1'', log_authenticatedAt = 30\<rparr>,
                              \<lparr>log_id = ''l1'', log_userId = ''u1'', log_authenticatedAt = 10\<rparr>],
              history_total = 2, history_limit = Num 50, history_offset = Num 0\<rparr> \<and>
   get_auth_logs ''u1'' (Some (js ''1'')) (Some (js ''1'')) example_db =
     Json200 [\<lparr>log_id = ''l1'', log_userId = ''u1'', log_authenticatedAt = 10\<rparr>] \<and>
   get_auth_logs ''u1'' (Some (160 # js ''1'')) None example_db =
     Json200 [\<lparr>log_id = ''l3'', log_userId = ''u1'', log_authenticatedAt = 30\<rparr>]"
  using pagination_defaults [where q_limit = "Some (js ''0'')" and q_offset = None
      and userId = "''u1''" and d = example_db]
    pagination_defaults [where q_limit = "Some (js ''abc'')" and q_offset = "Some (js '''')"
      and userId = "''u1''" and d = example_db]
    pagination_defaults [where q_limit = "Some (js ''1'')" and q_offset = "Some (js ''1'')"
      and userId = "''u1''" and d = example_db]
  by (simp add: auth_logs_eval spec_defaulted_def example_db_def)

end
